theory Spec2Isabelle
  imports Main "HOL-Library.AList"
begin

section \<open>Values, errors and requests\<close>

text \<open>
  Python values that travel through the Event model are JSON values: the attributes of an
  Event hold whatever the JSON document held, and \<open>None\<close> is \<open>JNull\<close>. A Python
  \<open>dict\<close> is an association list; \<open>map_of\<close> reads a key and \<open>AList.update\<close> is the
  item assignment \<open>d[k] = v\<close> (replace in place, or append a new key).
\<close>

datatype json =
    JNull
  | JBool bool
  | JNum int
  | JStr string
  | JArr "json list"
  | JObj "(string \<times> json) list"

type_synonym dict = "(string \<times> json) list"

datatype error = KeyError | TypeError | ValueError

text \<open>Python truthiness, as used by \<open>if self.source\<close> and \<open>if not e.time\<close>.\<close>

fun truthy :: "json \<Rightarrow> bool" where
  "truthy JNull = False"
| "truthy (JBool b) = b"
| "truthy (JNum n) = (n \<noteq> 0)"
| "truthy (JStr s) = (s \<noteq> [])"
| "truthy (JArr xs) = (xs \<noteq> [])"
| "truthy (JObj d) = (d \<noteq> [])"

text \<open>
  The subscript \<open>v[k]\<close> with a string key: a dict without the key raises KeyError, any
  value that is not a dict raises TypeError.
\<close>

fun subscript :: "json \<Rightarrow> string \<Rightarrow> error + json" where
  "subscript (JObj d) k = (case map_of d k of None \<Rightarrow> Inl KeyError | Some v \<Rightarrow> Inr v)"
| "subscript v k = Inl TypeError"

text \<open>
  The REST client is an external collaborator. A call of one of its operations is recorded
  as the request it sends; the file argument of the file operations is kept as given.
\<close>

datatype rest_api = CumulocityRestApi string

datatype request =
    Get string
  | Post string dict
  | Put string dict
  | Delete string
  | GetFile string
  | PostFile string string string "string option"
  | PutFile string string string "string option"

section \<open>The Event object\<close>

text \<open>
  The attributes of \<open>Event\<close>: \<open>c8y\<close> (the client reference), \<open>id\<close>, \<open>type\<close>, \<open>time\<close>,
  \<open>source\<close>, \<open>_u_text\<close> (behind the updatable property \<open>text\<close>), \<open>creation_time\<close>,
  \<open>updated_time\<close>, the custom fragments, and the names of the fields changed through an
  updatable property since the object was built or loaded.
\<close>

record event =
  c8y :: "rest_api option"
  ev_id :: json
  ev_type :: json
  ev_time :: json
  ev_source :: json
  u_text :: json
  creation_time :: json
  updated_time :: json
  fragments :: dict
  updated_fields :: "string list"

text \<open>\<open>Event()\<close>: the constructor called without arguments, every attribute \<open>None\<close>.\<close>

definition Event :: event where
  "Event = \<lparr> c8y = None, ev_id = JNull, ev_type = JNull, ev_time = JNull, ev_source = JNull,
             u_text = JNull, creation_time = JNull, updated_time = JNull,
             fragments = [], updated_fields = [] \<rparr>"

text \<open>Attribute access by name, \<open>obj.__dict__[name]\<close>, for the names the parser uses.\<close>

definition get_field :: "string \<Rightarrow> event \<Rightarrow> json" where
  "get_field name e =
     (if name = ''id'' then ev_id e
      else if name = ''type'' then ev_type e
      else if name = ''time'' then ev_time e
      else if name = ''_u_text'' then u_text e
      else if name = ''creation_time'' then creation_time e
      else if name = ''updated_time'' then updated_time e
      else JNull)"

definition set_field :: "string \<Rightarrow> json \<Rightarrow> event \<Rightarrow> event" where
  "set_field name v e =
     (if name = ''id'' then e\<lparr>ev_id := v\<rparr>
      else if name = ''type'' then e\<lparr>ev_type := v\<rparr>
      else if name = ''time'' then e\<lparr>ev_time := v\<rparr>
      else if name = ''_u_text'' then e\<lparr>u_text := v\<rparr>
      else if name = ''creation_time'' then e\<lparr>creation_time := v\<rparr>
      else if name = ''updated_time'' then e\<lparr>updated_time := v\<rparr>
      else e)"

text \<open>
  \<open>Event._parser\<close>: the table handed to \<open>ComplexObjectParser\<close> (attribute name, JSON key)
  and the list of keys that are no fragments.
\<close>

definition parser_mapping :: "(string \<times> string) list" where
  "parser_mapping =
     [(''type'', ''type''),
      (''time'', ''time''),
      (''_u_text'', ''text''),
      (''creation_time'', ''creationTime''),
      (''updated_time'', ''lastUpdated'')]"

definition parser_no_fragments :: "string list" where
  "parser_no_fragments = [''source'']"

text \<open>
  The class \<open>ComplexObjectParser\<close> and the base-class methods \<open>_from_json\<close> and
  \<open>_to_json\<close> that call it are not among the sources. The four definitions that follow model
  the field parser from the spec: the generic mapping between the attributes of an object
  and the keys of a JSON document, custom fragments passed through.
\<close>

text \<open>
  Modelled from the spec: what the parser (\<open>ComplexObjectParser\<close>, missing) reads from a
  document is the table of \<open>Event._parser\<close> together with the server-assigned identifier,
  \<open>id\<close>: an object loaded from the server carries its identifier. The identifier is only
  read; a document is written from the table of \<open>Event._parser\<close> alone.
\<close>

definition json_to_obj :: "(string \<times> string) list" where
  "json_to_obj = (''id'', ''id'') # parser_mapping"

text \<open>
  Modelled from the spec: the keys that the parser (\<open>ComplexObjectParser\<close>, missing) does not
  take for fragments are the keys it reads and the listed no-fragment keys.
\<close>

definition known_keys :: "string list" where
  "known_keys = map snd json_to_obj @ parser_no_fragments"

text \<open>
  Modelled from the spec: reading a document (\<open>_from_json\<close>, missing) maps every known key
  that is present to its attribute and keeps every other key as an opaque fragment.
\<close>

definition parser_from_json :: "dict \<Rightarrow> event \<Rightarrow> event" where
  "parser_from_json j obj =
     (fold (\<lambda>(name, key) ob. case map_of j key of None \<Rightarrow> ob | Some v \<Rightarrow> set_field name v ob)
           json_to_obj obj)
     \<lparr> fragments := filter (\<lambda>(k, v). k \<notin> set known_keys) j \<rparr>"

text \<open>\<open>d.update(other)\<close>: the item assignment for every item of \<open>other\<close>, in order.\<close>

definition dict_update :: "dict \<Rightarrow> dict \<Rightarrow> dict" where
  "dict_update d other = fold (\<lambda>(k, v). AList.update k v) other d"

text \<open>
  Modelled from the spec: writing a document (\<open>_to_json\<close>, missing) emits the attributes of
  the table of \<open>Event._parser\<close> that are set (not \<open>None\<close>) and not excluded, then the
  fragments; with \<open>only_updated\<close> it emits only the fields flagged as changed since load.
\<close>

definition parser_to_json :: "bool \<Rightarrow> string set \<Rightarrow> event \<Rightarrow> dict" where
  "parser_to_json only_updated exclude e =
     (let fields = map (\<lambda>(name, key). (key, get_field name e))
                     (filter (\<lambda>(name, key). name \<notin> exclude \<and> get_field name e \<noteq> JNull
                                \<and> (only_updated \<longrightarrow> name \<in> set (updated_fields e)))
                        parser_mapping)
      in if only_updated then fields else dict_update fields (fragments e))"

text \<open>
  Modelled from the spec: \<open>SimpleObject.UpdatableProperty\<close> is not among the sources. Writing
  the property \<open>text\<close> stores the value in \<open>_u_text\<close> and flags the field as changed.
\<close>

definition set_text :: "json \<Rightarrow> event \<Rightarrow> event" where
  "set_text v e = e\<lparr> u_text := v, updated_fields := List.insert ''_u_text'' (updated_fields e) \<rparr>"

subsection \<open>from_json and to_json\<close>

text \<open>
  \<open>Event.from_json\<close>: the parser fills a fresh \<open>Event()\<close>, then \<open>json['source']['id']\<close> is
  stored as the source. Both subscripts raise when the key is missing.
\<close>

definition from_json :: "dict \<Rightarrow> error + event" where
  "from_json j =
     (let obj = parser_from_json j Event
      in case subscript (JObj j) ''source'' of
           Inl err \<Rightarrow> Inl err
         | Inr s \<Rightarrow> (case subscript s ''id'' of
                       Inl err \<Rightarrow> Inl err
                     | Inr i \<Rightarrow> Inr (obj\<lparr>ev_source := i\<rparr>)))"

text \<open>
  \<open>Event.to_json\<close>: the creation time is always excluded; the source is added by hand, and
  only to a full (not a diff) document of an event whose source is set.
\<close>

definition to_json :: "bool \<Rightarrow> event \<Rightarrow> dict" where
  "to_json only_updated e =
     (let obj_json = parser_to_json only_updated {''creation_time''} e
      in if \<not> only_updated \<and> truthy (ev_source e)
         then AList.update ''source'' (JObj [(''id'', ev_source e)]) obj_json
         else obj_json)"

subsection \<open>Method calls\<close>

text \<open>
  A method call on an Event is modelled by its outcome: the value returned or the error
  raised, the object after the call, and the requests that were sent, in order.
\<close>

type_synonym 'a outcome = "(error + 'a) \<times> event \<times> request list"

text \<open>
  \<open>Event.has_attachment\<close> is \<open>'c8y_IsBinary' in self\<close>. The membership test of the base
  class is not among the sources; as the docstring of \<open>has_attachment\<close> says, it checks the
  presence of the fragment of that name.
\<close>

definition contains :: "event \<Rightarrow> string \<Rightarrow> bool" where
  "contains e name = (name \<in> fst ` set (fragments e))"

definition has_attachment :: "event \<Rightarrow> bool outcome" where
  "has_attachment e = (Inr (contains e ''c8y_IsBinary''), e, [])"

subsection \<open>Attachments\<close>

text \<open>\<open>Event._resource\<close>, which is also the resource path of the \<open>Events\<close> collection.\<close>

definition resource :: string where
  "resource = ''/event/events''"

text \<open>
  Modelled from the spec: \<open>_assert_c8y\<close> of the base class is not among the sources. A
  server operation requires the client reference and fails with a precondition error
  (\<open>ValueError\<close>) when it is missing.
\<close>

definition assert_c8y :: "event \<Rightarrow> error + unit" where
  "assert_c8y e = (if c8y e = None then Inl ValueError else Inr ())"

text \<open>
  Modelled from the spec: \<open>_assert_id\<close> of the base class is not among the sources. A server
  operation on an existing object requires the server-assigned identifier and fails with a
  precondition error (\<open>ValueError\<close>) when it is missing.
\<close>

definition assert_id :: "event \<Rightarrow> error + unit" where
  "assert_id e = (if ev_id e = JNull then Inl ValueError else Inr ())"

text \<open>
  Modelled from the spec: \<open>_build_object_path\<close> of the base class is not among the sources.
  The object path is the resource path followed by the identifier; \<open>str\<close> stands for Python's
  conversion of the identifier to text.
\<close>

definition build_object_path :: "(json \<Rightarrow> string) \<Rightarrow> event \<Rightarrow> string" where
  "build_object_path str e = resource @ ''/'' @ str (ev_id e)"

text \<open>\<open>Event._build_attachment_path\<close>.\<close>

definition build_attachment_path :: "(json \<Rightarrow> string) \<Rightarrow> event \<Rightarrow> string" where
  "build_attachment_path str e = build_object_path str e @ ''/binaries''"

text \<open>
  The four attachment operations: both assertions, then one call of the client on the
  attachment path. What the client answers is the server's and is not modelled.
\<close>

definition download_attachment :: "(json \<Rightarrow> string) \<Rightarrow> event \<Rightarrow> unit outcome" where
  "download_attachment str e =
     (case assert_c8y e of
        Inl err \<Rightarrow> (Inl err, e, [])
      | Inr _ \<Rightarrow> (case assert_id e of
                    Inl err \<Rightarrow> (Inl err, e, [])
                  | Inr _ \<Rightarrow> (Inr (), e, [GetFile (build_attachment_path str e)])))"

definition create_attachment ::
  "(json \<Rightarrow> string) \<Rightarrow> event \<Rightarrow> string \<Rightarrow> string option \<Rightarrow> unit outcome" where
  "create_attachment str e file content_type =
     (case assert_c8y e of
        Inl err \<Rightarrow> (Inl err, e, [])
      | Inr _ \<Rightarrow> (case assert_id e of
                    Inl err \<Rightarrow> (Inl err, e, [])
                  | Inr _ \<Rightarrow> (Inr (), e, [PostFile (build_attachment_path str e) file
                                              ''application/json'' content_type])))"

definition update_attachment ::
  "(json \<Rightarrow> string) \<Rightarrow> event \<Rightarrow> string \<Rightarrow> string option \<Rightarrow> unit outcome" where
  "update_attachment str e file content_type =
     (case assert_c8y e of
        Inl err \<Rightarrow> (Inl err, e, [])
      | Inr _ \<Rightarrow> (case assert_id e of
                    Inl err \<Rightarrow> (Inl err, e, [])
                  | Inr _ \<Rightarrow> (Inr (), e, [PutFile (build_attachment_path str e) file
                                              ''application/json'' content_type])))"

definition delete_attachment :: "(json \<Rightarrow> string) \<Rightarrow> event \<Rightarrow> unit outcome" where
  "delete_attachment str e =
     (case assert_c8y e of
        Inl err \<Rightarrow> (Inl err, e, [])
      | Inr _ \<Rightarrow> (case assert_id e of
                    Inl err \<Rightarrow> (Inl err, e, [])
                  | Inr _ \<Rightarrow> (Inr (), e, [Delete (build_attachment_path str e)])))"

section \<open>The Events collection\<close>

subsection \<open>Bulk create\<close>

text \<open>
  \<open>Events.create\<close>. A datetime is a number and \<open>to_timestring\<close> formats it
  (\<open>_DateUtil.to_timestring\<close>, not among the sources). \<open>datetime.utcnow()\<close> is read anew for
  every event whose time is not set: \<open>utcnow n\<close> is the \<open>n\<close>-th reading of the clock during
  the call. The loop updates the events in place; the model returns them, each argument
  being an object of its own.
\<close>

fun create_loop :: "(int \<Rightarrow> string) \<Rightarrow> (nat \<Rightarrow> int) \<Rightarrow> nat \<Rightarrow> event list \<Rightarrow> event list" where
  "create_loop to_timestring utcnow n [] = []"
| "create_loop to_timestring utcnow n (e # es) =
     (if \<not> truthy (ev_time e)
      then e\<lparr>ev_time := JStr (to_timestring (utcnow n))\<rparr>
             # create_loop to_timestring utcnow (Suc n) es
      else e # create_loop to_timestring utcnow n es)"

text \<open>
  Modelled from the spec: \<open>to_full_json\<close> of the base class is not among the sources. The
  full document of an object is its \<open>to_json\<close> without \<open>only_updated\<close>.
\<close>

definition to_full_json :: "event \<Rightarrow> dict" where
  "to_full_json e = to_json False e"

text \<open>
  Modelled from the spec: the bulk \<open>_create\<close> of the base class is not among the sources. It
  posts the document of each object to the resource, in order.
\<close>

definition bulk_create :: "(event \<Rightarrow> dict) \<Rightarrow> event list \<Rightarrow> request list" where
  "bulk_create jsonify objects = map (\<lambda>ob. Post resource (jsonify ob)) objects"

definition create :: "(int \<Rightarrow> string) \<Rightarrow> (nat \<Rightarrow> int) \<Rightarrow> event list \<Rightarrow> event list \<times> request list" where
  "create to_timestring utcnow events =
     (let events' = create_loop to_timestring utcnow 0 events
      in (events', bulk_create to_full_json events'))"

subsection \<open>Query strings\<close>

text \<open>Decimal text of an integer, Python's \<open>str\<close> on an \<open>int\<close>.\<close>

fun show_nat :: "nat \<Rightarrow> string" where
  "show_nat n =
     (if n < 10 then [''0123456789'' ! n]
      else show_nat (n div 10) @ [''0123456789'' ! (n mod 10)])"

declare show_nat.simps [simp del]

definition show_int :: "int \<Rightarrow> string" where
  "show_int i = (if i < 0 then CHR ''-'' # show_nat (nat (- i)) else show_nat (nat i))"

text \<open>
  A time-valued filter is a pre-formatted string or a datetime. The environment of the
  query builder: the clock reading, the formatting of a datetime as an ISO string with UTC
  offset, and the URL encoding of a value.
\<close>

datatype timearg = TimeString string | DateTime int

record env =
  now :: int
  timestring :: "int \<Rightarrow> string"
  quote :: "string \<Rightarrow> string"

fun ensure_timestring :: "env \<Rightarrow> timearg \<Rightarrow> string" where
  "ensure_timestring ev (TimeString s) = s"
| "ensure_timestring ev (DateTime d) = timestring ev d"

text \<open>
  The keyword arguments of \<open>_build_base_query\<close>, as \<open>select\<close> and \<open>delete_by\<close> pass them;
  \<open>select\<close> has \<open>limit\<close> and \<open>page_number\<close> in addition.
\<close>

record query_args =
  q_type :: "string option"
  q_source :: "string option"
  fragment :: "string option"
  q_before :: "timearg option"
  q_after :: "timearg option"
  date_from :: "timearg option"
  date_to :: "timearg option"
  created_before :: "timearg option"
  created_after :: "timearg option"
  created_from :: "timearg option"
  created_to :: "timearg option"
  updated_before :: "timearg option"
  updated_after :: "timearg option"
  last_updated_from :: "timearg option"
  last_updated_to :: "timearg option"
  min_age :: "int option"
  max_age :: "int option"
  reverse :: bool
  page_size :: "int option"

record select_args = query_args +
  limit :: "int option"
  page_number :: "int option"

text \<open>The arguments left at their defaults: no filter, no page size.\<close>

definition no_filters :: query_args where
  "no_filters = \<lparr> q_type = None, q_source = None, fragment = None, q_before = None, q_after = None,
      date_from = None, date_to = None, created_before = None, created_after = None,
      created_from = None, created_to = None, updated_before = None, updated_after = None,
      last_updated_from = None, last_updated_to = None, min_age = None, max_age = None,
      reverse = False, page_size = None \<rparr>"

text \<open>The defaults of \<open>select\<close>: no filter, \<open>reverse=False\<close>, \<open>page_size=1000\<close>, no limit.\<close>

definition select_defaults :: select_args where
  "select_defaults = \<lparr> q_type = None, q_source = None, fragment = None, q_before = None,
      q_after = None, date_from = None, date_to = None, created_before = None,
      created_after = None, created_from = None, created_to = None, updated_before = None,
      updated_after = None, last_updated_from = None, last_updated_to = None, min_age = None,
      max_age = None, reverse = False, page_size = Some 1000, limit = None,
      page_number = None \<rparr>"

text \<open>
  \<open>_build_base_query\<close> of the base class is not among the sources. The definitions that
  follow, up to \<open>build_base_query\<close>, model it from the spec: each filter parameter maps to
  one query key, mutually aliased parameters resolve to the same key, time values are
  normalised to ISO strings. The base query is the filter-encoded query string before the
  page number is appended.
\<close>

text \<open>
  Modelled from the spec: a part of \<open>_build_base_query\<close> (missing). The parameters that
  resolve to the same query key are listed in order of precedence, and the first that is
  given provides the value of the key.
\<close>

definition first_given :: "'a option list \<Rightarrow> 'a option" where
  "first_given candidates =
     (case List.map_filter (\<lambda>c. c) candidates of
        [] \<Rightarrow> None
      | x # _ \<Rightarrow> Some x)"

text \<open>
  Modelled from the spec: a part of \<open>_build_base_query\<close> (missing). An age is turned into
  the date bound \<open>now - age\<close>, formatted as a time string.
\<close>

definition age_bound :: "env \<Rightarrow> int option \<Rightarrow> string option" where
  "age_bound ev age = map_option (\<lambda>a. timestring ev (now ev - a)) age"

text \<open>
  Modelled from the spec: a part of \<open>_build_base_query\<close> (missing). Only the parameters
  that are given appear in the query, each with its value URL-encoded.
\<close>

definition given_params :: "env \<Rightarrow> (string \<times> string option) list \<Rightarrow> (string \<times> string) list" where
  "given_params ev kvs =
     List.map_filter (\<lambda>(k, v). map_option (\<lambda>x. (k, quote ev x)) v) kvs"

text \<open>
  Modelled from the spec: the filter-to-query mapping of \<open>_build_base_query\<close> (missing).
  The keys are the query parameters of the vendor's REST API. \<open>date_to\<close>, \<open>before\<close> and
  \<open>min_age\<close> resolve to \<open>dateTo\<close>; \<open>date_from\<close>, \<open>after\<close> and \<open>max_age\<close> to
  \<open>dateFrom\<close>; the created and updated bounds likewise. For one key the alias name comes
  before the plain name, and a date that is given before a bound derived from an age. The
  page size, which \<open>select\<close> passes with the filters, is the last parameter.
\<close>

definition build_query_params :: "env \<Rightarrow> 'a query_args_scheme \<Rightarrow> (string \<times> string) list" where
  "build_query_params ev a =
     (let t = map_option (ensure_timestring ev) in
      given_params ev
        [(''type'', q_type a),
         (''source'', q_source a),
         (''fragmentType'', fragment a),
         (''dateFrom'', first_given [t (date_from a), t (q_after a), age_bound ev (max_age a)]),
         (''dateTo'', first_given [t (date_to a), t (q_before a), age_bound ev (min_age a)]),
         (''createdFrom'', first_given [t (created_from a), t (created_after a)]),
         (''createdTo'', first_given [t (created_to a), t (created_before a)]),
         (''lastUpdatedFrom'', first_given [t (last_updated_from a), t (updated_after a)]),
         (''lastUpdatedTo'', first_given [t (last_updated_to a), t (updated_before a)]),
         (''revert'', if reverse a then Some ''true'' else None),
         (''pageSize'', map_option show_int (page_size a))])"

text \<open>\<open>sep.join(xs)\<close>.\<close>

fun join :: "string \<Rightarrow> string list \<Rightarrow> string" where
  "join sep [] = []"
| "join sep [x] = x"
| "join sep (x # y # ys) = x @ sep @ join sep (y # ys)"

text \<open>
  Modelled from the spec: a part of \<open>_build_base_query\<close> (missing). The query string is the
  resource path, \<open>?\<close>, and the parameters as \<open>key=value\<close> joined by \<open>&\<close>.
\<close>

definition render_query :: "(string \<times> string) list \<Rightarrow> string" where
  "render_query params = resource @ ''?'' @ join ''&'' (map (\<lambda>(k, v). k @ ''='' @ v) params)"

text \<open>
  Modelled from the spec: \<open>_build_base_query\<close> (missing). The base query is the query string
  of the parameters that are given; it carries no page number.
\<close>

definition build_base_query :: "env \<Rightarrow> 'a query_args_scheme \<Rightarrow> string" where
  "build_base_query ev a = render_query (build_query_params ev a)"

subsection \<open>Delete by filter\<close>

text \<open>
  \<open>s.rindex(c)\<close>: the last position of a character, \<open>ValueError\<close> (here \<open>None\<close>) when it
  does not occur.
\<close>

fun rindex :: "string \<Rightarrow> char \<Rightarrow> nat option" where
  "rindex [] c = None"
| "rindex (x # xs) c =
     (case rindex xs c of
        Some i \<Rightarrow> Some (Suc i)
      | None \<Rightarrow> if x = c then Some 0 else None)"

text \<open>
  \<open>Events.delete_by\<close>: the base query of the seven filters, cut before its last \<open>&\<close>, is
  handed to the client's \<open>delete\<close>; \<open>rindex\<close> raises when the base query has no \<open>&\<close>. The
  outcome is the value or error and the requests sent.
\<close>

definition delete_by ::
  "env \<Rightarrow> string option \<Rightarrow> string option \<Rightarrow> string option \<Rightarrow> timearg option \<Rightarrow> timearg option
     \<Rightarrow> int option \<Rightarrow> int option \<Rightarrow> (error + unit) \<times> request list" where
  "delete_by ev type_arg source_arg fragment_arg before_arg after_arg min_age_arg max_age_arg =
     (let base_query = build_base_query ev (no_filters\<lparr> q_type := type_arg,
              q_source := source_arg, fragment := fragment_arg, q_before := before_arg,
              q_after := after_arg, min_age := min_age_arg, max_age := max_age_arg \<rparr>)
      in case rindex base_query CHR ''&'' of
           None \<Rightarrow> (Inl ValueError, [])
         | Some i \<Rightarrow> (Inr (), [Delete (take i base_query)]))"

text \<open>
  The arguments \<open>select\<close> passes on for the same seven filters, everything else at its
  default, and the parameters that are about pagination.
\<close>

definition select_filters ::
  "string option \<Rightarrow> string option \<Rightarrow> string option \<Rightarrow> timearg option \<Rightarrow> timearg option
     \<Rightarrow> int option \<Rightarrow> int option \<Rightarrow> select_args" where
  "select_filters type_arg source_arg fragment_arg before_arg after_arg min_age_arg max_age_arg =
     select_defaults\<lparr> q_type := type_arg, q_source := source_arg, fragment := fragment_arg,
        q_before := before_arg, q_after := after_arg, min_age := min_age_arg, max_age := max_age_arg \<rparr>"

definition without_pagination :: "(string \<times> string) list \<Rightarrow> (string \<times> string) list" where
  "without_pagination params =
     filter (\<lambda>(k, v). k \<noteq> ''pageSize'' \<and> k \<noteq> ''currentPage'') params"

subsection \<open>Lazy selection\<close>

text \<open>
  \<open>_iterate\<close> and \<open>_get_page\<close> of the base class are not among the sources. The
  definitions that follow, up to \<open>iter_next\<close>, model the lazy sequence from the spec as a
  pull-based iterator with its suspension points made explicit.
\<close>

text \<open>
  Modelled from the spec: the state of the generator that \<open>_iterate\<close> (missing) returns: the
  base query, whether one page only was asked for, the page to fetch next, the limit, the
  number of objects handed out, the rest of the page at hand, and whether a page was
  fetched and whether the sequence has ended.
\<close>

record iterator =
  base_query :: string
  single_page :: bool
  current_page :: int
  it_limit :: "int option"
  num_results :: nat
  buffer :: "dict list"
  started :: bool
  exhausted :: bool

text \<open>What a pull gives: the next object, the end of the sequence, or an error.\<close>

datatype 'a step = Yield 'a | Stop | Raise error

text \<open>
  Modelled from the spec: the call of \<open>_iterate\<close> (missing). Nothing is fetched yet; with a
  page number given that page is the one to fetch and page following is off, otherwise the
  pages are followed from page 1.
\<close>

definition iterate :: "string \<Rightarrow> int option \<Rightarrow> int option \<Rightarrow> iterator" where
  "iterate bq page_number' limit' =
     \<lparr> base_query = bq, single_page = (page_number' \<noteq> None),
       current_page = (case page_number' of None \<Rightarrow> 1 | Some p \<Rightarrow> p),
       it_limit = limit', num_results = 0, buffer = [], started = False, exhausted = False \<rparr>"

text \<open>
  Modelled from the spec: a part of \<open>_iterate\<close> (missing). The limit caps the number of
  objects handed out.
\<close>

definition limit_reached :: "iterator \<Rightarrow> bool" where
  "limit_reached it = (case it_limit it of None \<Rightarrow> False | Some l \<Rightarrow> l \<le> int (num_results it))"

text \<open>
  Modelled from the spec: a part of \<open>_iterate\<close> (missing). A result is parsed with the
  given parse function, here \<open>Event.from_json\<close>, when it is handed out; a parse error ends
  the sequence.
\<close>

definition yield_from :: "dict \<Rightarrow> iterator \<Rightarrow> event step \<times> iterator" where
  "yield_from x it =
     (case from_json x of
        Inl err \<Rightarrow> (Raise err, it\<lparr>exhausted := True\<rparr>)
      | Inr ob \<Rightarrow> (Yield ob, it\<lparr>num_results := Suc (num_results it)\<rparr>))"

text \<open>
  Modelled from the spec: one pull on the generator of \<open>_iterate\<close> and \<open>_get_page\<close>
  (missing). A pull hands out the next object of the page at hand; when the page is used up
  it fetches the next page, one GET of the base query with the page parameter
  \<open>currentPage\<close> appended, and ends the sequence when that page is empty. Once the limit is reached a pull ends the
  sequence without fetching. With a page number given only that page is fetched.
  \<open>srv p\<close> is the list of results the server returns for page \<open>p\<close>.
\<close>

definition iter_next :: "(int \<Rightarrow> dict list) \<Rightarrow> iterator \<Rightarrow> event step \<times> iterator \<times> request list" where
  "iter_next srv it =
     (if exhausted it then (Stop, it, [])
      else if limit_reached it then (Stop, it\<lparr>exhausted := True\<rparr>, [])
      else case buffer it of
        x # rest \<Rightarrow>
          (let (st, it') = yield_from x (it\<lparr>buffer := rest\<rparr>) in (st, it', []))
      | [] \<Rightarrow>
          if single_page it \<and> started it then (Stop, it\<lparr>exhausted := True\<rparr>, [])
          else
            let req = Get (base_query it @ ''&currentPage='' @ show_int (current_page it));
                it1 = it\<lparr>current_page := current_page it + 1, started := True\<rparr>
            in case srv (current_page it) of
                 [] \<Rightarrow> (Stop, it1\<lparr>exhausted := True\<rparr>, [req])
               | x # rest \<Rightarrow>
                   (let (st, it') = yield_from x (it1\<lparr>buffer := rest\<rparr>) in (st, it', [req])))"

text \<open>
  \<open>Events.select\<close>: the base query is built at the call from the filters, \<open>reverse\<close> and
  \<open>page_size\<close>, and handed with \<open>page_number\<close> and \<open>limit\<close> to the iterator that is
  returned.
\<close>

definition select :: "env \<Rightarrow> select_args \<Rightarrow> iterator" where
  "select ev a = iterate (build_base_query ev a) (page_number a) (limit a)"

text \<open>
  A consumer that asks for at most \<open>k\<close> objects and then abandons the iterator: the objects
  it got, the iterator it leaves behind, and the requests that were sent.
\<close>

fun pull :: "(int \<Rightarrow> dict list) \<Rightarrow> nat \<Rightarrow> iterator \<Rightarrow> event list \<times> iterator \<times> request list" where
  "pull srv 0 it = ([], it, [])"
| "pull srv (Suc k) it =
     (case iter_next srv it of
        (Yield ob, it', reqs) \<Rightarrow>
          (let (obs, it'', reqs') = pull srv k it' in (ob # obs, it'', reqs @ reqs'))
      | (_, it', reqs) \<Rightarrow> ([], it', reqs))"

text \<open>The upstream result sequence \<open>xs\<close>, served in pages of \<open>n\<close> results, pages from 1.\<close>

definition page_of :: "dict list \<Rightarrow> nat \<Rightarrow> int \<Rightarrow> dict list" where
  "page_of xs n p = take n (drop (n * nat (p - 1)) xs)"

section \<open>Auxiliary definitions\<close>

text \<open>\<open>d.get(k)\<close>: the value at a key, \<open>None\<close> when the key is missing.\<close>

definition dict_get :: "dict \<Rightarrow> string \<Rightarrow> json" where
  "dict_get d k = (case map_of d k of None \<Rightarrow> JNull | Some v \<Rightarrow> v)"

text \<open>The typed fields of a full document: what the parser writes before the fragments.\<close>

definition full_fields :: "event \<Rightarrow> dict" where
  "full_fields e = map (\<lambda>(name, key). (key, get_field name e))
                     (filter (\<lambda>(name, key). name \<notin> {''creation_time''} \<and> get_field name e \<noteq> JNull)
                        parser_mapping)"

text \<open>The number of events without a time among the first \<open>i\<close>: the clock readings used up.\<close>

definition unset_before :: "event list \<Rightarrow> nat \<Rightarrow> nat" where
  "unset_before events i = length (filter (\<lambda>e. \<not> truthy (ev_time e)) (take i events))"

text \<open>
  A concrete environment, result document and event for the evaluations below: datetimes
  are formatted as \<open>T\<close> and the number, values are left unencoded.
\<close>

definition example_env :: env where
  "example_env = \<lparr> now = 1000, timestring = (\<lambda>t. ''T'' @ show_int t), quote = (\<lambda>s. s) \<rparr>"

definition example_doc :: "string \<Rightarrow> dict" where
  "example_doc i = [(''id'', JStr i), (''type'', JStr ''door''), (''source'', JObj [(''id'', JStr ''4711'')])]"

definition example_event :: "string \<Rightarrow> event" where
  "example_event i = Event\<lparr>ev_id := JStr i, ev_type := JStr ''door'', ev_source := JStr ''4711''\<rparr>"

section \<open>Auxiliary lemmas\<close>

subsection \<open>Dictionaries\<close>

lemma update_append_fresh:
  "k \<notin> fst ` set d \<Longrightarrow> AList.update k v d = d @ [(k, v)]"
  by (induction d) auto

lemma dict_update_fresh:
  "distinct (map fst other) \<Longrightarrow> fst ` set other \<inter> fst ` set d = {} \<Longrightarrow>
   dict_update d other = d @ other"
proof (induction other arbitrary: d)
  case Nil
  then show ?case by (simp add: dict_update_def)
next
  case (Cons p ps)
  obtain k v where p: "p = (k, v)" by (cases p)
  from Cons.prems p have fresh: "k \<notin> fst ` set d" by auto
  have step: "dict_update d (p # ps) = dict_update (d @ [(k, v)]) ps"
    using fresh by (simp add: dict_update_def p update_append_fresh)
  from Cons.prems p have "distinct (map fst ps)" and "fst ` set ps \<inter> fst ` set (d @ [(k, v)]) = {}"
    by auto
  then have "dict_update (d @ [(k, v)]) ps = (d @ [(k, v)]) @ ps"
    by (rule Cons.IH)
  with step show ?case by (simp add: p)
qed

subsection \<open>The field parser\<close>

lemma parser_from_json_fields:
  "parser_from_json j Event =
     \<lparr> c8y = None, ev_id = dict_get j ''id'', ev_type = dict_get j ''type'',
       ev_time = dict_get j ''time'', ev_source = JNull, u_text = dict_get j ''text'',
       creation_time = dict_get j ''creationTime'', updated_time = dict_get j ''lastUpdated'',
       fragments = filter (\<lambda>(k, v). k \<notin> set known_keys) j, updated_fields = [] \<rparr>"
  by (simp add: parser_from_json_def json_to_obj_def parser_mapping_def Event_def set_field_def
        dict_get_def split: option.split)

lemma full_fields_keys': "fst ` set (full_fields e) \<subseteq> snd ` set parser_mapping"
  by (force simp: full_fields_def)

lemma full_fields_keys: "fst ` set (full_fields e) \<subseteq> set known_keys"
  using full_fields_keys' [of e] by (auto simp: known_keys_def json_to_obj_def)

lemma full_fields_source: "''source'' \<notin> fst ` set (full_fields e)"
proof -
  have "''source'' \<notin> snd ` set parser_mapping"
    by (simp add: parser_mapping_def)
  with full_fields_keys' [of e] show ?thesis by blast
qed

lemma full_fields_id: "''id'' \<notin> fst ` set (full_fields e)"
proof -
  have "''id'' \<notin> snd ` set parser_mapping"
    by (simp add: parser_mapping_def)
  with full_fields_keys' [of e] show ?thesis by blast
qed

lemma dict_get_append_fields:
  "k \<notin> fst ` set b \<Longrightarrow> dict_get (a @ b) k = dict_get a k"
proof -
  assume "k \<notin> fst ` set b"
  then have "map_of b k = None" by (simp add: map_of_eq_None_iff)
  then show ?thesis by (simp add: dict_get_def map_add_def split: option.split)
qed

lemma map_of_table:
  "distinct (map snd tbl) \<Longrightarrow> (name, key) \<in> set tbl \<Longrightarrow>
   map_of (map (\<lambda>(n, k). (k, g n)) (filter (\<lambda>(n, k). P n) tbl)) key
     = (if P name then Some (g name) else None)"
proof (induction tbl)
  case Nil
  then show ?case by simp
next
  case (Cons p tbl)
  obtain n k where p: "p = (n, k)" by (cases p)
  show ?case
  proof (cases "(name, key) = (n, k)")
    case True
    then have "key \<notin> snd ` set tbl" using Cons.prems(1) p by auto
    then have "key \<notin> fst ` set (map (\<lambda>(n, k). (k, g n)) (filter (\<lambda>(n, k). P n) tbl))"
      by force
    then have "map_of (map (\<lambda>(n, k). (k, g n)) (filter (\<lambda>(n, k). P n) tbl)) key = None"
      by (simp add: map_of_eq_None_iff)
    with True p show ?thesis by simp
  next
    case False
    with Cons.prems p have mem: "(name, key) \<in> set tbl" and "key \<noteq> k" and "distinct (map snd tbl)"
      by force+
    with Cons.IH p show ?thesis by simp
  qed
qed

lemma full_fields_map_of:
  assumes "(name, key) \<in> set parser_mapping"
  shows "map_of (full_fields e) key
     = (if name \<notin> {''creation_time''} \<and> get_field name e \<noteq> JNull
        then Some (get_field name e) else None)"
proof -
  have d: "distinct (map snd parser_mapping)"
    by (simp add: parser_mapping_def)
  have "full_fields e = map (\<lambda>(n, k). (k, get_field n e))
          (filter (\<lambda>(n, k). n \<notin> {''creation_time''} \<and> get_field n e \<noteq> JNull) parser_mapping)"
    by (simp add: full_fields_def)
  then show ?thesis
    using map_of_table [OF d assms,
        of "\<lambda>n. get_field n e" "\<lambda>n. n \<notin> {''creation_time''} \<and> get_field n e \<noteq> JNull"]
    by simp
qed

lemma full_fields_get_id: "dict_get (full_fields e) ''id'' = JNull"
  using full_fields_id [of e] by (simp add: dict_get_def map_of_eq_None_iff [THEN iffD2])

lemma full_fields_get_type: "dict_get (full_fields e) ''type'' = ev_type e"
  using full_fields_map_of [of "''type''" "''type''" e]
  by (simp add: dict_get_def parser_mapping_def get_field_def)

lemma full_fields_get_time: "dict_get (full_fields e) ''time'' = ev_time e"
  using full_fields_map_of [of "''time''" "''time''" e]
  by (simp add: dict_get_def parser_mapping_def get_field_def)

lemma full_fields_get_text: "dict_get (full_fields e) ''text'' = u_text e"
  using full_fields_map_of [of "''_u_text''" "''text''" e]
  by (simp add: dict_get_def parser_mapping_def get_field_def)

lemma full_fields_get_creation: "dict_get (full_fields e) ''creationTime'' = JNull"
  using full_fields_map_of [of "''creation_time''" "''creationTime''" e]
  by (simp add: dict_get_def parser_mapping_def get_field_def)

lemma full_fields_get_updated: "dict_get (full_fields e) ''lastUpdated'' = updated_time e"
  using full_fields_map_of [of "''updated_time''" "''lastUpdated''" e]
  by (simp add: dict_get_def parser_mapping_def get_field_def)

lemmas full_fields_get = full_fields_get_id full_fields_get_type full_fields_get_time
  full_fields_get_text full_fields_get_creation full_fields_get_updated

lemma to_json_full:
  assumes "truthy (ev_source e)" "distinct (map fst (fragments e))"
    "fst ` set (fragments e) \<inter> set known_keys = {}"
  shows "to_json False e = full_fields e @ fragments e @ [(''source'', JObj [(''id'', ev_source e)])]"
proof -
  have src: "''source'' \<in> set known_keys"
    by (simp add: known_keys_def parser_no_fragments_def)
  have disj: "fst ` set (fragments e) \<inter> fst ` set (full_fields e) = {}"
    using assms(3) full_fields_keys [of e] by blast
  have "parser_to_json False {''creation_time''} e = full_fields e @ fragments e"
    using dict_update_fresh [OF assms(2) disj]
    by (simp add: parser_to_json_def full_fields_def)
  moreover have "''source'' \<notin> fst ` set (full_fields e @ fragments e)"
    using full_fields_source [of e] assms(3) src by auto
  ultimately show ?thesis
    using assms(1) by (simp add: to_json_def update_append_fresh)
qed

lemma to_json_no_source:
  assumes "\<not> truthy (ev_source e)" "distinct (map fst (fragments e))"
    "fst ` set (fragments e) \<inter> set known_keys = {}"
  shows "to_json False e = full_fields e @ fragments e"
proof -
  have disj: "fst ` set (fragments e) \<inter> fst ` set (full_fields e) = {}"
    using assms(3) full_fields_keys [of e] by blast
  have "parser_to_json False {''creation_time''} e = full_fields e @ fragments e"
    using dict_update_fresh [OF assms(2) disj]
    by (simp add: parser_to_json_def full_fields_def)
  then show ?thesis
    using assms(1) by (simp add: to_json_def)
qed

lemma from_json_no_source: "map_of j ''source'' = None \<Longrightarrow> from_json j = Inl KeyError"
  by (simp add: from_json_def)

lemma from_json_success:
  assumes "map_of j ''source'' = Some (JObj d)" "map_of d ''id'' = Some i"
  shows "from_json j = Inr
         \<lparr> c8y = None, ev_id = dict_get j ''id'', ev_type = dict_get j ''type'',
           ev_time = dict_get j ''time'', ev_source = i, u_text = dict_get j ''text'',
           creation_time = dict_get j ''creationTime'', updated_time = dict_get j ''lastUpdated'',
           fragments = filter (\<lambda>(k, v). k \<notin> set known_keys) j,
           updated_fields = [] \<rparr>"
  using assms by (simp add: from_json_def parser_from_json_fields)

subsection \<open>Bulk create\<close>

lemma create_loop_length: "length (create_loop ts clock n es) = length es"
  by (induction es arbitrary: n) auto

lemma create_loop_nth:
  "i < length es \<Longrightarrow>
   create_loop ts clock n es ! i =
     (if \<not> truthy (ev_time (es ! i))
      then (es ! i)\<lparr>ev_time := JStr (ts (clock (n + unset_before es i)))\<rparr>
      else es ! i)"
proof (induction es arbitrary: n i)
  case Nil
  then show ?case by simp
next
  case (Cons e es)
  show ?case
  proof (cases i)
    case 0
    then show ?thesis by (simp add: unset_before_def)
  next
    case (Suc j)
    with Cons.prems have j: "j < length es" by simp
    show ?thesis
      using Cons.IH [OF j] Suc by (simp add: unset_before_def)
  qed
qed

subsection \<open>Query strings\<close>

lemma show_1000: "show_int 1000 = ''1000''"
  by (simp add: show_int_def show_nat.simps)

lemma show_int_digits: "show_int 1 = ''1''" "show_int 2 = ''2''" "show_int 3 = ''3''"
  by (simp_all add: show_int_def show_nat.simps)

lemmas query_defs = build_base_query_def build_query_params_def Let_def first_given_def
  map_filter_simps age_bound_def given_params_def render_query_def resource_def
  example_env_def show_int_def show_nat.simps

lemma given_params_step:
  "given_params ev ((k, v) # kvs)
     = (case v of None \<Rightarrow> given_params ev kvs | Some x \<Rightarrow> (k, quote ev x) # given_params ev kvs)"
  by (cases v) (simp_all add: given_params_def map_filter_simps)

lemma given_params_absent: "k \<notin> fst ` set kvs \<Longrightarrow> map_of (given_params ev kvs) k = None"
proof (induction kvs)
  case Nil
  then show ?case by (simp add: given_params_def map_filter_simps)
next
  case (Cons p kvs)
  obtain k' v' where p: "p = (k', v')" by (cases p)
  from Cons.prems p have "k \<noteq> k'" and "k \<notin> fst ` set kvs" by auto
  with Cons.IH show ?case unfolding p by (cases v') (simp_all add: given_params_step)
qed

lemma map_of_given_params:
  "distinct (map fst kvs) \<Longrightarrow>
   map_of (given_params ev kvs) k
     = (case map_of kvs k of Some (Some v) \<Rightarrow> Some (quote ev v) | _ \<Rightarrow> None)"
proof (induction kvs)
  case Nil
  then show ?case by (simp add: given_params_def map_filter_simps)
next
  case (Cons p kvs)
  obtain k' v' where p: "p = (k', v')" by (cases p)
  from Cons.prems p have fresh: "k' \<notin> fst ` set kvs" and d: "distinct (map fst kvs)"
    by auto
  show ?case
  proof (cases "k = k'")
    case True
    with fresh have "map_of (given_params ev kvs) k' = None" by (simp add: given_params_absent)
    with True show ?thesis unfolding p by (cases v') (simp_all add: given_params_step)
  next
    case False
    with Cons.IH [OF d] show ?thesis unfolding p by (cases v') (simp_all add: given_params_step)
  qed
qed

lemma query_value:
  "map_of (build_query_params ev a) k
     = (case map_of
          [(''type'', q_type a),
           (''source'', q_source a),
           (''fragmentType'', fragment a),
           (''dateFrom'', first_given [map_option (ensure_timestring ev) (date_from a),
               map_option (ensure_timestring ev) (q_after a), age_bound ev (max_age a)]),
           (''dateTo'', first_given [map_option (ensure_timestring ev) (date_to a),
               map_option (ensure_timestring ev) (q_before a), age_bound ev (min_age a)]),
           (''createdFrom'', first_given [map_option (ensure_timestring ev) (created_from a),
               map_option (ensure_timestring ev) (created_after a)]),
           (''createdTo'', first_given [map_option (ensure_timestring ev) (created_to a),
               map_option (ensure_timestring ev) (created_before a)]),
           (''lastUpdatedFrom'', first_given [map_option (ensure_timestring ev) (last_updated_from a),
               map_option (ensure_timestring ev) (updated_after a)]),
           (''lastUpdatedTo'', first_given [map_option (ensure_timestring ev) (last_updated_to a),
               map_option (ensure_timestring ev) (updated_before a)]),
           (''revert'', if reverse a then Some ''true'' else None),
           (''pageSize'', map_option show_int (page_size a))] k of
        Some (Some v) \<Rightarrow> Some (quote ev v)
      | _ \<Rightarrow> None)"
  unfolding build_query_params_def Let_def
  by (rule map_of_given_params) simp

lemma first_given_simps:
  "first_given (Some x # cs) = Some x"
  "first_given (None # cs) = first_given cs"
  "first_given [] = None"
  by (simp_all add: first_given_def map_filter_simps)

lemma alias_dateTo:
  "build_query_params ev (a\<lparr>q_before := Some x, date_to := None\<rparr>)
     = build_query_params ev (a\<lparr>q_before := None, date_to := Some x\<rparr>)"
  by (simp add: build_query_params_def first_given_simps)

lemma alias_dateFrom:
  "build_query_params ev (a\<lparr>q_after := Some x, date_from := None\<rparr>)
     = build_query_params ev (a\<lparr>q_after := None, date_from := Some x\<rparr>)"
  by (simp add: build_query_params_def first_given_simps)

lemma alias_createdTo:
  "build_query_params ev (a\<lparr>created_before := Some x, created_to := None\<rparr>)
     = build_query_params ev (a\<lparr>created_before := None, created_to := Some x\<rparr>)"
  by (simp add: build_query_params_def first_given_simps)

lemma alias_createdFrom:
  "build_query_params ev (a\<lparr>created_after := Some x, created_from := None\<rparr>)
     = build_query_params ev (a\<lparr>created_after := None, created_from := Some x\<rparr>)"
  by (simp add: build_query_params_def first_given_simps)

lemma alias_lastUpdatedTo:
  "build_query_params ev (a\<lparr>updated_before := Some x, last_updated_to := None\<rparr>)
     = build_query_params ev (a\<lparr>updated_before := None, last_updated_to := Some x\<rparr>)"
  by (simp add: build_query_params_def first_given_simps)

lemma alias_lastUpdatedFrom:
  "build_query_params ev (a\<lparr>updated_after := Some x, last_updated_from := None\<rparr>)
     = build_query_params ev (a\<lparr>updated_after := None, last_updated_from := Some x\<rparr>)"
  by (simp add: build_query_params_def first_given_simps)

lemma key_dateTo:
  "map_of (build_query_params ev (a\<lparr>q_before := Some x, date_to := None\<rparr>)) ''dateTo''
     = Some (quote ev (ensure_timestring ev x))"
  by (simp add: query_value first_given_simps)

lemma key_dateFrom:
  "map_of (build_query_params ev (a\<lparr>q_after := Some x, date_from := None\<rparr>)) ''dateFrom''
     = Some (quote ev (ensure_timestring ev x))"
  by (simp add: query_value first_given_simps)

lemma key_createdTo:
  "map_of (build_query_params ev (a\<lparr>created_before := Some x, created_to := None\<rparr>)) ''createdTo''
     = Some (quote ev (ensure_timestring ev x))"
  by (simp add: query_value first_given_simps)

lemma key_createdFrom:
  "map_of (build_query_params ev (a\<lparr>created_after := Some x, created_from := None\<rparr>)) ''createdFrom''
     = Some (quote ev (ensure_timestring ev x))"
  by (simp add: query_value first_given_simps)

lemma key_lastUpdatedTo:
  "map_of (build_query_params ev (a\<lparr>updated_before := Some x, last_updated_to := None\<rparr>))
       ''lastUpdatedTo''
     = Some (quote ev (ensure_timestring ev x))"
  by (simp add: query_value first_given_simps)

lemma key_lastUpdatedFrom:
  "map_of (build_query_params ev (a\<lparr>updated_after := Some x, last_updated_from := None\<rparr>))
       ''lastUpdatedFrom''
     = Some (quote ev (ensure_timestring ev x))"
  by (simp add: query_value first_given_simps)

subsection \<open>The iterator\<close>

lemma page_of_simps:
  "page_of (x1 # x2 # x3 # x4 # x5 # rest) 2 1 = [x1, x2]"
  "page_of (x1 # x2 # x3 # x4 # x5 # rest) 2 2 = [x3, x4]"
  "page_of (x1 # x2 # x3 # x4 # x5 # rest) 2 3 = x5 # take 1 rest"
  by (simp_all add: page_of_def)

lemmas iter_defs = iter_next_def yield_from_def limit_reached_def iterate_def Let_def

lemma pull_five:
  assumes p: "from_json x1 = Inr e1" "from_json x2 = Inr e2" "from_json x3 = Inr e3"
    "from_json x4 = Inr e4" "from_json x5 = Inr e5"
  shows "fst (pull (page_of (x1 # x2 # x3 # x4 # x5 # rest) 2) k (iterate bq None (Some 5)))
           = take k [e1, e2, e3, e4, e5]
       \<and> snd (snd (pull (page_of (x1 # x2 # x3 # x4 # x5 # rest) 2) k (iterate bq None (Some 5))))
           = take ((k + 1) div 2)
               [Get (bq @ ''&currentPage='' @ show_int 1), Get (bq @ ''&currentPage='' @ show_int 2),
                Get (bq @ ''&currentPage='' @ show_int 3)]"
proof -
  consider "k = 0" | "k = Suc 0" | "k = Suc (Suc 0)" | "k = Suc (Suc (Suc 0))"
    | "k = Suc (Suc (Suc (Suc 0)))" | "k = Suc (Suc (Suc (Suc (Suc 0))))"
    | m where "k = Suc (Suc (Suc (Suc (Suc (Suc m)))))"
    by (metis not0_implies_Suc)
  then show ?thesis
  proof cases
    case 1
    then show ?thesis by simp
  next
    case 2
    have d: "(k + 1) div 2 = Suc 0" using 2 by simp
    show ?thesis unfolding d unfolding 2
      by (simp add: iter_defs page_of_simps p)
  next
    case 3
    have d: "(k + 1) div 2 = Suc 0" using 3 by simp
    show ?thesis unfolding d unfolding 3
      by (simp add: iter_defs page_of_simps p)
  next
    case 4
    have d: "(k + 1) div 2 = Suc (Suc 0)" using 4 by simp
    show ?thesis unfolding d unfolding 4
      by (simp add: iter_defs page_of_simps p)
  next
    case 5
    have d: "(k + 1) div 2 = Suc (Suc 0)" using 5 by simp
    show ?thesis unfolding d unfolding 5
      by (simp add: iter_defs page_of_simps p)
  next
    case 6
    have d: "(k + 1) div 2 = Suc (Suc (Suc 0))" using 6 by simp
    show ?thesis unfolding d unfolding 6
      by (simp add: iter_defs page_of_simps p)
  next
    case 7
    have "3 \<le> (k + 1) div 2" using 7 by simp
    then have d: "take ((k + 1) div 2)
         [Get (bq @ ''&currentPage='' @ show_int 1), Get (bq @ ''&currentPage='' @ show_int 2),
          Get (bq @ ''&currentPage='' @ show_int 3)]
       = [Get (bq @ ''&currentPage='' @ show_int 1), Get (bq @ ''&currentPage='' @ show_int 2),
          Get (bq @ ''&currentPage='' @ show_int 3)]"
      by simp
    show ?thesis unfolding d unfolding 7
      by (simp add: iter_defs page_of_simps p)
  qed
qed

section \<open>Properties of the Event object\<close>

subsection \<open>The round trip, in two parts\<close>

lemma round_trip_with_source:
  assumes "truthy (ev_source e)"
    "distinct (map fst (fragments e))"
    "fst ` set (fragments e) \<inter> set known_keys = {}"
  shows "from_json (to_json False e)
           = Inr (e\<lparr>c8y := None, ev_id := JNull, creation_time := JNull, updated_fields := []\<rparr>)"
proof -
  define src where "src = [(''source'', JObj [(''id'', ev_source e)])]"
  define j where "j = full_fields e @ fragments e @ src"
  have ks: "set known_keys = {''id'', ''type'', ''time'', ''text'', ''creationTime'',
                                               ''lastUpdated'', ''source''}"
    by (simp add: known_keys_def json_to_obj_def parser_mapping_def parser_no_fragments_def)
  have tj: "to_json False e = j"
    unfolding j_def src_def by (rule to_json_full [OF assms])
  have notin: "k \<notin> fst ` set (fragments e @ src)"
    if "k \<in> {''id'', ''type'', ''time'', ''text'', ''creationTime'', ''lastUpdated''}" for k
    using assms(3) that by (auto simp: src_def ks)
  have get: "dict_get j k = dict_get (full_fields e) k"
    if "k \<in> {''id'', ''type'', ''time'', ''text'', ''creationTime'', ''lastUpdated''}" for k
    unfolding j_def by (rule dict_get_append_fields [OF notin [OF that]])
  have g1: "dict_get j ''id'' = JNull" using get [of "''id''"] by (simp add: full_fields_get)
  have g2: "dict_get j ''type'' = ev_type e" using get [of "''type''"] by (simp add: full_fields_get)
  have g3: "dict_get j ''time'' = ev_time e" using get [of "''time''"] by (simp add: full_fields_get)
  have g4: "dict_get j ''text'' = u_text e" using get [of "''text''"] by (simp add: full_fields_get)
  have g5: "dict_get j ''creationTime'' = JNull"
    using get [of "''creationTime''"] by (simp add: full_fields_get)
  have g6: "dict_get j ''lastUpdated'' = updated_time e"
    using get [of "''lastUpdated''"] by (simp add: full_fields_get)
  have source: "map_of j ''source'' = Some (JObj [(''id'', ev_source e)])"
  proof -
    have "map_of (full_fields e) ''source'' = None"
      using full_fields_source [of e] by (simp add: map_of_eq_None_iff)
    moreover have "map_of (fragments e) ''source'' = None"
      using assms(3) by (auto simp: map_of_eq_None_iff ks)
    ultimately show ?thesis by (simp add: j_def src_def map_add_def)
  qed
  have frag: "filter (\<lambda>(k, v). k \<notin> set known_keys) j = fragments e"
  proof -
    have "filter (\<lambda>(k, v). k \<notin> set known_keys) (full_fields e) = []"
      using full_fields_keys [of e] by (auto simp: filter_empty_conv)
    moreover have "filter (\<lambda>(k, v). k \<notin> set known_keys) (fragments e) = fragments e"
      using assms(3) by (force simp: filter_id_conv)
    moreover have "filter (\<lambda>(k, v). k \<notin> set known_keys) src = []"
      by (simp add: src_def known_keys_def parser_no_fragments_def)
    ultimately show ?thesis by (simp add: j_def)
  qed
  have idv: "map_of [(''id'', ev_source e)] ''id'' = Some (ev_source e)" by simp
  have "from_json j = Inr
         \<lparr> c8y = None, ev_id = JNull, ev_type = ev_type e,
           ev_time = ev_time e, ev_source = ev_source e, u_text = u_text e,
           creation_time = JNull, updated_time = updated_time e,
           fragments = fragments e, updated_fields = [] \<rparr>"
    using from_json_success [OF source idv] by (simp only: g1 g2 g3 g4 g5 g6 frag)
  also have "\<lparr> c8y = None, ev_id = JNull, ev_type = ev_type e,
           ev_time = ev_time e, ev_source = ev_source e, u_text = u_text e,
           creation_time = JNull, updated_time = updated_time e,
           fragments = fragments e, updated_fields = [] \<rparr>
      = e\<lparr>c8y := None, ev_id := JNull, creation_time := JNull, updated_fields := []\<rparr>"
    by (cases e) simp
  finally show ?thesis by (simp only: tj)
qed

lemma round_trip_without_source:
  assumes "\<not> truthy (ev_source e)"
    "distinct (map fst (fragments e))"
    "fst ` set (fragments e) \<inter> set known_keys = {}"
  shows "from_json (to_json False e) = Inl KeyError"
proof -
  have "''source'' \<in> set known_keys"
    by (simp add: known_keys_def parser_no_fragments_def)
  with assms(3) have "''source'' \<notin> fst ` set (fragments e)" by blast
  with full_fields_source [of e] have "''source'' \<notin> fst ` set (full_fields e @ fragments e)"
    by auto
  then have "map_of (full_fields e @ fragments e) ''source'' = None"
    by (rule map_of_eq_None_iff [THEN iffD2])
  then show ?thesis
    by (simp only: to_json_no_source [OF assms] from_json_no_source)
qed

text \<open>
  Claim C3, as amended. \<open>to_json\<close> never writes the creation time and writes the source
  only when it is set. So for every event whose fragments have distinct names other than the
  keys the parser knows: when the source is set, \<open>from_json (to_json x)\<close> succeeds and is
  \<open>x\<close> in type, time, text, source, update time and fragments, with the creation time (and
  the identifier, the client reference and the change flags) reset; when the source is not
  set, \<open>from_json (to_json x)\<close> raises KeyError.
\<close>

theorem round_trip:
  assumes "distinct (map fst (fragments e))"
    "fst ` set (fragments e) \<inter> {''id'', ''type'', ''time'', ''text'', ''creationTime'',
                                               ''lastUpdated'', ''source''} = {}"
  shows "(truthy (ev_source e) \<longrightarrow>
            from_json (to_json False e)
              = Inr (e\<lparr>c8y := None, ev_id := JNull, creation_time := JNull, updated_fields := []\<rparr>))
       \<and> (\<not> truthy (ev_source e) \<longrightarrow> from_json (to_json False e) = Inl KeyError)"
proof -
  have ks: "set known_keys = {''id'', ''type'', ''time'', ''text'', ''creationTime'',
                                               ''lastUpdated'', ''source''}"
    by (simp add: known_keys_def json_to_obj_def parser_mapping_def parser_no_fragments_def)
  have disj: "fst ` set (fragments e) \<inter> set known_keys = {}"
    using assms(2) by (simp only: ks)
  show ?thesis
    using round_trip_with_source [OF _ assms(1) disj] round_trip_without_source [OF _ assms(1) disj]
    by blast
qed

theorem round_trip_witness:
  "from_json (to_json False (Event\<lparr>ev_id := JStr ''1'', ev_type := JStr ''door'',
        ev_time := JStr ''2024-05-01T10:00:00.000Z'',
        ev_source := JStr ''4711'', u_text := JStr ''opened'',
        creation_time := JStr ''2024-05-01T10:00:01.000Z'',
        fragments := [(''c8y_Position'', JObj [(''lat'', JNum 48)])],
        updated_fields := [''_u_text'']\<rparr>))
     = Inr (Event\<lparr>ev_type := JStr ''door'', ev_time := JStr ''2024-05-01T10:00:00.000Z'',
        ev_source := JStr ''4711'', u_text := JStr ''opened'',
        fragments := [(''c8y_Position'', JObj [(''lat'', JNum 48)])]\<rparr>)
   \<and> from_json (to_json False (Event\<lparr>ev_type := JStr ''door'',
        fragments := [(''c8y_Position'', JObj [(''lat'', JNum 48)])]\<rparr>)) = Inl KeyError"
  using round_trip [of "Event\<lparr>ev_id := JStr ''1'', ev_type := JStr ''door'',
        ev_time := JStr ''2024-05-01T10:00:00.000Z'',
        ev_source := JStr ''4711'', u_text := JStr ''opened'',
        creation_time := JStr ''2024-05-01T10:00:01.000Z'',
        fragments := [(''c8y_Position'', JObj [(''lat'', JNum 48)])],
        updated_fields := [''_u_text'']\<rparr>"]
      round_trip [of "Event\<lparr>ev_type := JStr ''door'',
        fragments := [(''c8y_Position'', JObj [(''lat'', JNum 48)])]\<rparr>"]
  by (simp add: Event_def)

text \<open>
  Claim C3 as stated fails: the creation time of an event is lost in the round trip, and an
  event without a source is written without the key that \<open>from_json\<close> subscripts.
\<close>

theorem round_trip_counterexample:
  "from_json (to_json False (Event\<lparr>ev_type := JStr ''door'', ev_time := JStr ''2024-05-01T10:00:00.000Z'',
        ev_source := JStr ''4711'', creation_time := JStr ''2024-05-01T10:00:01.000Z''\<rparr>))
     = Inr (Event\<lparr>ev_type := JStr ''door'', ev_time := JStr ''2024-05-01T10:00:00.000Z'',
        ev_source := JStr ''4711'', creation_time := JNull\<rparr>)
   \<and> from_json (to_json False (Event\<lparr>ev_type := JStr ''door'',
        ev_time := JStr ''2024-05-01T10:00:00.000Z''\<rparr>)) = Inl KeyError"
  by (simp add: Event_def from_json_def to_json_def parser_to_json_def parser_from_json_def
        json_to_obj_def parser_mapping_def known_keys_def parser_no_fragments_def
        get_field_def set_field_def dict_update_def)

text \<open>
  Claim C4, as amended. An event loaded from JSON and then changed in its one updatable
  field, \<open>text\<close>, has a diff document with exactly the key \<open>text\<close> when the new value is not
  \<open>None\<close>: no other typed field, no \<open>source\<close>, no \<open>creationTime\<close>, no fragment. When the
  new value is \<open>None\<close> the diff document is empty.
\<close>

theorem diff_after_set_text:
  assumes "from_json j = Inr e"
  shows "to_json True (set_text v e) = (if v = JNull then [] else [(''text'', v)])"
proof -
  from assms have "updated_fields e = []"
    by (auto simp: from_json_def parser_from_json_fields split: sum.splits)
  then show ?thesis
    by (simp add: to_json_def parser_to_json_def set_text_def parser_mapping_def get_field_def)
qed

theorem diff_after_set_text_witness:
  "from_json [(''id'', JStr ''1''), (''type'', JStr ''door''), (''text'', JStr ''opened''),
              (''source'', JObj [(''id'', JStr ''4711'')]), (''c8y_Extra'', JNum 1)]
     = Inr (Event\<lparr>ev_id := JStr ''1'', ev_type := JStr ''door'', ev_source := JStr ''4711'',
          u_text := JStr ''opened'', fragments := [(''c8y_Extra'', JNum 1)]\<rparr>)
   \<and> to_json True (set_text (JStr ''closed'')
         (Event\<lparr>ev_id := JStr ''1'', ev_type := JStr ''door'', ev_source := JStr ''4711'',
          u_text := JStr ''opened'', fragments := [(''c8y_Extra'', JNum 1)]\<rparr>))
     = [(''text'', JStr ''closed'')]"
proof -
  have h: "from_json [(''id'', JStr ''1''), (''type'', JStr ''door''), (''text'', JStr ''opened''),
              (''source'', JObj [(''id'', JStr ''4711'')]), (''c8y_Extra'', JNum 1)]
     = Inr (Event\<lparr>ev_id := JStr ''1'', ev_type := JStr ''door'', ev_source := JStr ''4711'',
          u_text := JStr ''opened'', fragments := [(''c8y_Extra'', JNum 1)]\<rparr>)"
    by (simp add: Event_def from_json_def parser_from_json_def
        json_to_obj_def parser_mapping_def known_keys_def parser_no_fragments_def set_field_def)
  show ?thesis
    using h diff_after_set_text [OF h, of "JStr ''closed''"] by simp
qed

text \<open>
  Claim C4 as stated fails: setting \<open>text\<close> to \<open>None\<close> changes the one updatable field of a
  loaded event, and the diff document is then empty: it does not contain the key \<open>text\<close>.
\<close>

theorem diff_after_set_text_counterexample:
  "from_json [(''type'', JStr ''door''), (''text'', JStr ''opened''),
              (''source'', JObj [(''id'', JStr ''4711'')])]
     = Inr (Event\<lparr>ev_type := JStr ''door'', ev_source := JStr ''4711'', u_text := JStr ''opened''\<rparr>)
   \<and> to_json True (set_text JNull
         (Event\<lparr>ev_type := JStr ''door'', ev_source := JStr ''4711'', u_text := JStr ''opened''\<rparr>))
     = []"
  by (simp add: Event_def from_json_def parser_from_json_def json_to_obj_def parser_mapping_def
        known_keys_def parser_no_fragments_def set_field_def to_json_def parser_to_json_def
        set_text_def get_field_def)

text \<open>
  Claim C5, as amended. \<open>from_json\<close> raises when the required key \<open>source\<close> or its nested
  \<open>id\<close> is missing (KeyError), or when \<open>source\<close> is no object (TypeError). Otherwise it
  succeeds: each of the keys \<open>id\<close>, \<open>type\<close>, \<open>time\<close>, \<open>text\<close>, \<open>creationTime\<close> and
  \<open>lastUpdated\<close> that is present is mapped to its field, one that is absent leaves the field
  \<open>None\<close>, the nested id becomes the source, and every other key of the document is kept as
  a fragment.
\<close>

theorem from_json_parses:
  "(map_of j ''source'' = None \<longrightarrow> from_json j = Inl KeyError)
 \<and> (\<forall>s. map_of j ''source'' = Some s \<and> (\<forall>d. s \<noteq> JObj d) \<longrightarrow> from_json j = Inl TypeError)
 \<and> (\<forall>d. map_of j ''source'' = Some (JObj d) \<and> map_of d ''id'' = None \<longrightarrow> from_json j = Inl KeyError)
 \<and> (\<forall>d i. map_of j ''source'' = Some (JObj d) \<and> map_of d ''id'' = Some i \<longrightarrow>
       from_json j = Inr
         \<lparr> c8y = None, ev_id = dict_get j ''id'', ev_type = dict_get j ''type'',
           ev_time = dict_get j ''time'', ev_source = i, u_text = dict_get j ''text'',
           creation_time = dict_get j ''creationTime'', updated_time = dict_get j ''lastUpdated'',
           fragments = filter (\<lambda>(k, v). k \<notin> {''id'', ''type'', ''time'', ''text'', ''creationTime'',
                                               ''lastUpdated'', ''source''}) j,
           updated_fields = [] \<rparr>)"
proof -
  have ks: "set known_keys = {''id'', ''type'', ''time'', ''text'', ''creationTime'',
                                               ''lastUpdated'', ''source''}"
    by (simp add: known_keys_def json_to_obj_def parser_mapping_def parser_no_fragments_def)
  have a: "map_of j ''source'' = None \<Longrightarrow> from_json j = Inl KeyError"
    by (simp add: from_json_def)
  have b: "map_of j ''source'' = Some s \<Longrightarrow> (\<forall>d. s \<noteq> JObj d) \<Longrightarrow> from_json j = Inl TypeError" for s
    by (cases s) (simp_all add: from_json_def)
  have c: "map_of j ''source'' = Some (JObj d) \<Longrightarrow> map_of d ''id'' = None \<Longrightarrow> from_json j = Inl KeyError" for d
    by (simp add: from_json_def)
  have d: "map_of j ''source'' = Some (JObj d) \<Longrightarrow> map_of d ''id'' = Some i \<Longrightarrow>
       from_json j = Inr
         \<lparr> c8y = None, ev_id = dict_get j ''id'', ev_type = dict_get j ''type'',
           ev_time = dict_get j ''time'', ev_source = i, u_text = dict_get j ''text'',
           creation_time = dict_get j ''creationTime'', updated_time = dict_get j ''lastUpdated'',
           fragments = filter (\<lambda>(k, v). k \<notin> {''id'', ''type'', ''time'', ''text'', ''creationTime'',
                                               ''lastUpdated'', ''source''}) j,
           updated_fields = [] \<rparr>" for d i
    by (simp add: from_json_def parser_from_json_fields ks)
  from a b c d show ?thesis by blast
qed

theorem from_json_parses_witness:
  "from_json [(''type'', JStr ''door'')] = Inl KeyError
 \<and> from_json [(''type'', JStr ''door''), (''source'', JStr ''4711'')] = Inl TypeError
 \<and> from_json [(''type'', JStr ''door''), (''source'', JObj [(''self'', JStr ''http://x'')])] = Inl KeyError
 \<and> from_json [(''id'', JStr ''1''), (''type'', JStr ''door''), (''text'', JStr ''opened''),
              (''source'', JObj [(''id'', JStr ''4711'')]), (''c8y_Extra'', JNum 1)]
     = Inr \<lparr> c8y = None, ev_id = JStr ''1'', ev_type = JStr ''door'', ev_time = JNull,
             ev_source = JStr ''4711'', u_text = JStr ''opened'', creation_time = JNull,
             updated_time = JNull, fragments = [(''c8y_Extra'', JNum 1)], updated_fields = [] \<rparr>"
  using from_json_parses [of "[(''type'', JStr ''door'')]"]
        from_json_parses [of "[(''type'', JStr ''door''), (''source'', JStr ''4711'')]"]
        from_json_parses [of "[(''type'', JStr ''door''), (''source'', JObj [(''self'', JStr ''http://x'')])]"]
        from_json_parses [of "[(''id'', JStr ''1''), (''type'', JStr ''door''), (''text'', JStr ''opened''),
              (''source'', JObj [(''id'', JStr ''4711'')]), (''c8y_Extra'', JNum 1)]"]
  by (simp add: dict_get_def)

text \<open>
  Claim C5 as stated fails: a document that has the source but none of the keys \<open>type\<close>,
  \<open>time\<close>, \<open>text\<close>, \<open>creationTime\<close> and \<open>lastUpdated\<close> is read without an error, the
  fields left \<open>None\<close>; and its key \<open>id\<close> becomes the identifier, not a fragment.
\<close>

theorem from_json_parses_counterexample:
  "from_json [(''id'', JStr ''1''), (''source'', JObj [(''id'', JStr ''4711'')])]
     = Inr \<lparr> c8y = None, ev_id = JStr ''1'', ev_type = JNull, ev_time = JNull,
             ev_source = JStr ''4711'', u_text = JNull, creation_time = JNull,
             updated_time = JNull, fragments = [], updated_fields = [] \<rparr>"
  by (simp add: Event_def from_json_def parser_from_json_def json_to_obj_def parser_mapping_def
        known_keys_def parser_no_fragments_def set_field_def)

text \<open>
  Claim C10. \<open>has_attachment\<close> returns True exactly when the object has a fragment named
  \<open>c8y_IsBinary\<close>; it raises nothing, sends no request and leaves the object as it was.
\<close>

theorem has_attachment_iff_fragment:
  "has_attachment e = (Inr (map_of (fragments e) ''c8y_IsBinary'' \<noteq> None), e, [])"
  by (simp add: has_attachment_def contains_def map_of_eq_None_iff)

theorem has_attachment_iff_fragment_witness:
  "has_attachment (Event\<lparr>fragments := [(''c8y_IsBinary'', JObj [(''name'', JStr ''a.bin'')])]\<rparr>)
     = (Inr True, Event\<lparr>fragments := [(''c8y_IsBinary'', JObj [(''name'', JStr ''a.bin'')])]\<rparr>, [])
   \<and> has_attachment Event = (Inr False, Event, [])"
  using has_attachment_iff_fragment
          [of "Event\<lparr>fragments := [(''c8y_IsBinary'', JObj [(''name'', JStr ''a.bin'')])]\<rparr>"]
        has_attachment_iff_fragment [of Event]
  by (simp add: Event_def)

text \<open>
  Claim C9. Each attachment operation checks the client reference and then the identifier
  before it calls the client: when one of them is missing it raises the precondition error,
  sends nothing and leaves the object as it was. When both are present it sends exactly one
  request, to the object path followed by \<open>/binaries\<close>.
\<close>

theorem attachment_operations:
  "(c8y e = None \<or> ev_id e = JNull \<longrightarrow>
      download_attachment str e = (Inl ValueError, e, [])
    \<and> create_attachment str e file content_type = (Inl ValueError, e, [])
    \<and> update_attachment str e file content_type = (Inl ValueError, e, [])
    \<and> delete_attachment str e = (Inl ValueError, e, []))
 \<and> (c8y e \<noteq> None \<and> ev_id e \<noteq> JNull \<longrightarrow>
      download_attachment str e = (Inr (), e, [GetFile (build_object_path str e @ ''/binaries'')])
    \<and> create_attachment str e file content_type
        = (Inr (), e, [PostFile (build_object_path str e @ ''/binaries'') file
                          ''application/json'' content_type])
    \<and> update_attachment str e file content_type
        = (Inr (), e, [PutFile (build_object_path str e @ ''/binaries'') file
                          ''application/json'' content_type])
    \<and> delete_attachment str e = (Inr (), e, [Delete (build_object_path str e @ ''/binaries'')]))"
  by (simp add: download_attachment_def create_attachment_def update_attachment_def
        delete_attachment_def assert_c8y_def assert_id_def build_attachment_path_def)

theorem attachment_operations_witness:
  "download_attachment (\<lambda>v. case v of JStr s \<Rightarrow> s | _ \<Rightarrow> [])
       (Event\<lparr>c8y := Some (CumulocityRestApi ''https://t.example.com''), ev_id := JStr ''9001''\<rparr>)
     = (Inr (), Event\<lparr>c8y := Some (CumulocityRestApi ''https://t.example.com''), ev_id := JStr ''9001''\<rparr>,
        [GetFile ''/event/events/9001/binaries''])
   \<and> delete_attachment (\<lambda>v. case v of JStr s \<Rightarrow> s | _ \<Rightarrow> [])
       (Event\<lparr>c8y := Some (CumulocityRestApi ''https://t.example.com''), ev_id := JStr ''9001''\<rparr>)
     = (Inr (), Event\<lparr>c8y := Some (CumulocityRestApi ''https://t.example.com''), ev_id := JStr ''9001''\<rparr>,
        [Delete ''/event/events/9001/binaries''])
   \<and> create_attachment (\<lambda>v. case v of JStr s \<Rightarrow> s | _ \<Rightarrow> [])
       (Event\<lparr>c8y := Some (CumulocityRestApi ''https://t.example.com'')\<rparr>) ''a.bin'' None
     = (Inl ValueError, Event\<lparr>c8y := Some (CumulocityRestApi ''https://t.example.com'')\<rparr>, [])
   \<and> update_attachment (\<lambda>v. case v of JStr s \<Rightarrow> s | _ \<Rightarrow> [])
       (Event\<lparr>ev_id := JStr ''9001''\<rparr>) ''a.bin'' (Some ''image/png'')
     = (Inl ValueError, Event\<lparr>ev_id := JStr ''9001''\<rparr>, [])"
  using attachment_operations [of
          "Event\<lparr>c8y := Some (CumulocityRestApi ''https://t.example.com''), ev_id := JStr ''9001''\<rparr>"
          "\<lambda>v. case v of JStr s \<Rightarrow> s | _ \<Rightarrow> []" "''a.bin''" None]
        attachment_operations [of
          "Event\<lparr>c8y := Some (CumulocityRestApi ''https://t.example.com'')\<rparr>"
          "\<lambda>v. case v of JStr s \<Rightarrow> s | _ \<Rightarrow> []" "''a.bin''" None]
        attachment_operations [of
          "Event\<lparr>ev_id := JStr ''9001''\<rparr>"
          "\<lambda>v. case v of JStr s \<Rightarrow> s | _ \<Rightarrow> []" "''a.bin''" "Some ''image/png''"]
  by (simp add: Event_def build_object_path_def resource_def)

section \<open>Properties of the Events collection\<close>

text \<open>
  Claim C8. \<open>create\<close> gives every event whose time is not set (\<open>None\<close>, the empty string,
  any value that is not truthy) the formatted reading of the UTC clock taken for it, and
  leaves every event whose time is set as it was; the documents posted are those of the
  events after this step.
\<close>

theorem create_sets_missing_time:
  "create to_timestring utcnow events = (events', requests) \<Longrightarrow>
     length events' = length events
   \<and> (\<forall>i < length events.
        (\<not> truthy (ev_time (events ! i)) \<longrightarrow>
           events' ! i = (events ! i)\<lparr>ev_time :=
              JStr (to_timestring (utcnow (unset_before events i)))\<rparr>)
      \<and> (truthy (ev_time (events ! i)) \<longrightarrow> events' ! i = events ! i))
   \<and> requests = map (\<lambda>e. Post ''/event/events'' (to_json False e)) events'"
  using create_loop_nth [of _ events to_timestring utcnow 0]
  by (auto simp: create_def Let_def create_loop_length bulk_create_def to_full_json_def resource_def)

theorem create_sets_missing_time_witness:
  "create (\<lambda>t. ''T'' @ show_int t) (\<lambda>n. 100 + int n)
      [Event\<lparr>ev_type := JStr ''a''\<rparr>,
       Event\<lparr>ev_type := JStr ''b'', ev_time := JStr ''2024-05-01T10:00:00.000Z''\<rparr>,
       Event\<lparr>ev_type := JStr ''c'', ev_time := JStr []\<rparr>]
     = ([Event\<lparr>ev_type := JStr ''a'', ev_time := JStr ''T100''\<rparr>,
         Event\<lparr>ev_type := JStr ''b'', ev_time := JStr ''2024-05-01T10:00:00.000Z''\<rparr>,
         Event\<lparr>ev_type := JStr ''c'', ev_time := JStr ''T101''\<rparr>],
        [Post ''/event/events'' [(''type'', JStr ''a''), (''time'', JStr ''T100'')],
         Post ''/event/events'' [(''type'', JStr ''b''), (''time'', JStr ''2024-05-01T10:00:00.000Z'')],
         Post ''/event/events'' [(''type'', JStr ''c''), (''time'', JStr ''T101'')]])
   \<and> length [Event\<lparr>ev_type := JStr ''a'', ev_time := JStr ''T100''\<rparr>,
         Event\<lparr>ev_type := JStr ''b'', ev_time := JStr ''2024-05-01T10:00:00.000Z''\<rparr>,
         Event\<lparr>ev_type := JStr ''c'', ev_time := JStr ''T101''\<rparr>]
     = length [Event\<lparr>ev_type := JStr ''a''\<rparr>,
       Event\<lparr>ev_type := JStr ''b'', ev_time := JStr ''2024-05-01T10:00:00.000Z''\<rparr>,
       Event\<lparr>ev_type := JStr ''c'', ev_time := JStr []\<rparr>]"
proof -
  have run: "create (\<lambda>t. ''T'' @ show_int t) (\<lambda>n. 100 + int n)
      [Event\<lparr>ev_type := JStr ''a''\<rparr>,
       Event\<lparr>ev_type := JStr ''b'', ev_time := JStr ''2024-05-01T10:00:00.000Z''\<rparr>,
       Event\<lparr>ev_type := JStr ''c'', ev_time := JStr []\<rparr>]
     = ([Event\<lparr>ev_type := JStr ''a'', ev_time := JStr ''T100''\<rparr>,
         Event\<lparr>ev_type := JStr ''b'', ev_time := JStr ''2024-05-01T10:00:00.000Z''\<rparr>,
         Event\<lparr>ev_type := JStr ''c'', ev_time := JStr ''T101''\<rparr>],
        [Post ''/event/events'' [(''type'', JStr ''a''), (''time'', JStr ''T100'')],
         Post ''/event/events'' [(''type'', JStr ''b''), (''time'', JStr ''2024-05-01T10:00:00.000Z'')],
         Post ''/event/events'' [(''type'', JStr ''c''), (''time'', JStr ''T101'')]])"
    apply (simp add: create_def bulk_create_def to_full_json_def resource_def Event_def)
    apply (simp add: show_int_def show_nat.simps)
    apply (simp add: to_json_def parser_to_json_def json_to_obj_def parser_mapping_def
             get_field_def dict_update_def)
    done
  from run show ?thesis
    using conjunct1 [OF create_sets_missing_time [OF run]] by (intro conjI)
qed

text \<open>
  Claim C1. Called with every filter \<open>None\<close>, \<open>delete_by\<close> sends no DELETE: the base query
  of no filter has no \<open>&\<close>, so \<open>rindex\<close> raises ValueError before the client is called.
\<close>

theorem delete_by_without_filters:
  "delete_by ev None None None None None None None = (Inl ValueError, [])"
proof -
  have "build_base_query ev (no_filters\<lparr> q_type := None, q_source := None, fragment := None,
            q_before := None, q_after := None, min_age := None, max_age := None \<rparr>)
          = ''/event/events?''"
    by (simp add: build_base_query_def build_query_params_def no_filters_def first_given_simps
          age_bound_def given_params_def map_filter_simps render_query_def resource_def)
  then show ?thesis by (simp add: delete_by_def)
qed

theorem delete_by_without_filters_witness:
  "delete_by example_env None None None None None None None = (Inl ValueError, [])"
  using delete_by_without_filters [of example_env] by simp

text \<open>
  Claim C2 fails on the code. The base query carries no page number, so the cut before the
  last \<open>&\<close>, meant to remove the page parameter, removes the last filter: with the filters
  type, source and after, the DELETE goes out without the date bound, while the query that
  \<open>select\<close> builds for these filters, pagination removed, has all three. With one filter
  only there is no \<open>&\<close> to cut at, and \<open>delete_by\<close> raises ValueError.
\<close>

theorem delete_by_cuts_last_filter:
  "delete_by example_env (Some ''door'') (Some ''4711'') None None (Some (DateTime 7)) None None
     = (Inr (), [Delete ''/event/events?type=door&source=4711''])
   \<and> base_query (select example_env
         (select_filters (Some ''door'') (Some ''4711'') None None (Some (DateTime 7)) None None))
     = ''/event/events?type=door&source=4711&dateFrom=T7&pageSize=1000''
   \<and> render_query (without_pagination (build_query_params example_env
         (select_filters (Some ''door'') (Some ''4711'') None None (Some (DateTime 7)) None None)))
     = ''/event/events?type=door&source=4711&dateFrom=T7''
   \<and> delete_by example_env (Some ''door'') None None None None None None
     = (Inl ValueError, [])"
proof -
  have p1: "build_query_params example_env (no_filters\<lparr> q_type := Some ''door'',
            q_source := Some ''4711'', fragment := None, q_before := None,
            q_after := Some (DateTime 7), min_age := None, max_age := None \<rparr>)
          = [(''type'', ''door''), (''source'', ''4711''), (''dateFrom'', ''T7'')]"
    by (simp add: no_filters_def query_defs)
  have p2: "build_query_params example_env
         (select_filters (Some ''door'') (Some ''4711'') None None (Some (DateTime 7)) None None)
          = [(''type'', ''door''), (''source'', ''4711''), (''dateFrom'', ''T7''),
             (''pageSize'', ''1000'')]"
    by (simp add: select_filters_def select_defaults_def query_defs)
  have p3: "build_query_params example_env (no_filters\<lparr> q_type := Some ''door'',
            q_source := None, fragment := None, q_before := None,
            q_after := None, min_age := None, max_age := None \<rparr>)
          = [(''type'', ''door'')]"
    by (simp add: no_filters_def query_defs)
  have d1: "delete_by example_env (Some ''door'') (Some ''4711'') None None (Some (DateTime 7)) None None
     = (Inr (), [Delete ''/event/events?type=door&source=4711''])"
    by (simp add: delete_by_def build_base_query_def p1 render_query_def resource_def)
  have d2: "delete_by example_env (Some ''door'') None None None None None None
     = (Inl ValueError, [])"
    by (simp add: delete_by_def build_base_query_def p3 render_query_def resource_def)
  have s1: "base_query (select example_env
         (select_filters (Some ''door'') (Some ''4711'') None None (Some (DateTime 7)) None None))
     = ''/event/events?type=door&source=4711&dateFrom=T7&pageSize=1000''"
    by (simp add: select_def iterate_def build_base_query_def p2 render_query_def resource_def)
  have s2: "render_query (without_pagination (build_query_params example_env
         (select_filters (Some ''door'') (Some ''4711'') None None (Some (DateTime 7)) None None)))
     = ''/event/events?type=door&source=4711&dateFrom=T7''"
    by (simp add: p2 without_pagination_def render_query_def resource_def)
  from d1 s1 s2 d2 show ?thesis by (intro conjI)
qed

text \<open>
  Claim C7. Two mutually aliased parameters resolve to the same query key. For each of the
  six pairs, \<open>select\<close> with the one parameter and \<open>select\<close> with the other give the same
  iterator, base query included; the base query of \<open>select\<close> is the query string of the
  parameters built from its arguments; and in these parameters the value, normalised and
  encoded, stands under the one key of the pair, whichever of the two names was used.
\<close>

theorem alias_equivalence:
  fixes a b :: select_args
  shows
  "base_query (select ev b) = render_query (build_query_params ev b)
 \<and> select ev (a\<lparr>q_before := Some x, date_to := None\<rparr>)
      = select ev (a\<lparr>q_before := None, date_to := Some x\<rparr>)
 \<and> map_of (build_query_params ev (a\<lparr>q_before := Some x, date_to := None\<rparr>)) ''dateTo''
      = Some (quote ev (ensure_timestring ev x))
 \<and> map_of (build_query_params ev (a\<lparr>q_before := None, date_to := Some x\<rparr>)) ''dateTo''
      = Some (quote ev (ensure_timestring ev x))
 \<and> select ev (a\<lparr>q_after := Some x, date_from := None\<rparr>)
      = select ev (a\<lparr>q_after := None, date_from := Some x\<rparr>)
 \<and> map_of (build_query_params ev (a\<lparr>q_after := Some x, date_from := None\<rparr>)) ''dateFrom''
      = Some (quote ev (ensure_timestring ev x))
 \<and> map_of (build_query_params ev (a\<lparr>q_after := None, date_from := Some x\<rparr>)) ''dateFrom''
      = Some (quote ev (ensure_timestring ev x))
 \<and> select ev (a\<lparr>created_before := Some x, created_to := None\<rparr>)
      = select ev (a\<lparr>created_before := None, created_to := Some x\<rparr>)
 \<and> map_of (build_query_params ev (a\<lparr>created_before := Some x, created_to := None\<rparr>)) ''createdTo''
      = Some (quote ev (ensure_timestring ev x))
 \<and> map_of (build_query_params ev (a\<lparr>created_before := None, created_to := Some x\<rparr>)) ''createdTo''
      = Some (quote ev (ensure_timestring ev x))
 \<and> select ev (a\<lparr>created_after := Some x, created_from := None\<rparr>)
      = select ev (a\<lparr>created_after := None, created_from := Some x\<rparr>)
 \<and> map_of (build_query_params ev (a\<lparr>created_after := Some x, created_from := None\<rparr>)) ''createdFrom''
      = Some (quote ev (ensure_timestring ev x))
 \<and> map_of (build_query_params ev (a\<lparr>created_after := None, created_from := Some x\<rparr>)) ''createdFrom''
      = Some (quote ev (ensure_timestring ev x))
 \<and> select ev (a\<lparr>updated_before := Some x, last_updated_to := None\<rparr>)
      = select ev (a\<lparr>updated_before := None, last_updated_to := Some x\<rparr>)
 \<and> map_of (build_query_params ev (a\<lparr>updated_before := Some x, last_updated_to := None\<rparr>))
        ''lastUpdatedTo''
      = Some (quote ev (ensure_timestring ev x))
 \<and> map_of (build_query_params ev (a\<lparr>updated_before := None, last_updated_to := Some x\<rparr>))
        ''lastUpdatedTo''
      = Some (quote ev (ensure_timestring ev x))
 \<and> select ev (a\<lparr>updated_after := Some x, last_updated_from := None\<rparr>)
      = select ev (a\<lparr>updated_after := None, last_updated_from := Some x\<rparr>)
 \<and> map_of (build_query_params ev (a\<lparr>updated_after := Some x, last_updated_from := None\<rparr>))
        ''lastUpdatedFrom''
      = Some (quote ev (ensure_timestring ev x))
 \<and> map_of (build_query_params ev (a\<lparr>updated_after := None, last_updated_from := Some x\<rparr>))
        ''lastUpdatedFrom''
      = Some (quote ev (ensure_timestring ev x))"
proof -
  have q: "base_query (select ev b) = render_query (build_query_params ev b)"
    by (simp add: select_def iterate_def build_base_query_def)
  have s1: "select ev (a\<lparr>q_before := Some x, date_to := None\<rparr>)
      = select ev (a\<lparr>q_before := None, date_to := Some x\<rparr>)"
    by (simp add: select_def build_base_query_def alias_dateTo)
  have s2: "select ev (a\<lparr>q_after := Some x, date_from := None\<rparr>)
      = select ev (a\<lparr>q_after := None, date_from := Some x\<rparr>)"
    by (simp add: select_def build_base_query_def alias_dateFrom)
  have s3: "select ev (a\<lparr>created_before := Some x, created_to := None\<rparr>)
      = select ev (a\<lparr>created_before := None, created_to := Some x\<rparr>)"
    by (simp add: select_def build_base_query_def alias_createdTo)
  have s4: "select ev (a\<lparr>created_after := Some x, created_from := None\<rparr>)
      = select ev (a\<lparr>created_after := None, created_from := Some x\<rparr>)"
    by (simp add: select_def build_base_query_def alias_createdFrom)
  have s5: "select ev (a\<lparr>updated_before := Some x, last_updated_to := None\<rparr>)
      = select ev (a\<lparr>updated_before := None, last_updated_to := Some x\<rparr>)"
    by (simp add: select_def build_base_query_def alias_lastUpdatedTo)
  have s6: "select ev (a\<lparr>updated_after := Some x, last_updated_from := None\<rparr>)
      = select ev (a\<lparr>updated_after := None, last_updated_from := Some x\<rparr>)"
    by (simp add: select_def build_base_query_def alias_lastUpdatedFrom)
  show ?thesis
    by (intro conjI q s1 s2 s3 s4 s5 s6 key_dateTo key_dateFrom key_createdTo key_createdFrom
          key_lastUpdatedTo key_lastUpdatedFrom
          key_dateTo [where ev = ev and a = a and x = x, unfolded alias_dateTo]
          key_dateFrom [where ev = ev and a = a and x = x, unfolded alias_dateFrom]
          key_createdTo [where ev = ev and a = a and x = x, unfolded alias_createdTo]
          key_createdFrom [where ev = ev and a = a and x = x, unfolded alias_createdFrom]
          key_lastUpdatedTo [where ev = ev and a = a and x = x, unfolded alias_lastUpdatedTo]
          key_lastUpdatedFrom [where ev = ev and a = a and x = x, unfolded alias_lastUpdatedFrom])
qed

theorem alias_equivalence_witness:
  "select example_env (select_defaults\<lparr>q_before := Some (TimeString ''2024-05-01T00:00:00Z''),
        date_to := None\<rparr>)
     = iterate ''/event/events?dateTo=2024-05-01T00:00:00Z&pageSize=1000'' None None
   \<and> select example_env (select_defaults\<lparr>q_before := None,
        date_to := Some (TimeString ''2024-05-01T00:00:00Z'')\<rparr>)
     = iterate ''/event/events?dateTo=2024-05-01T00:00:00Z&pageSize=1000'' None None
   \<and> map_of (build_query_params example_env (select_defaults\<lparr>q_before := None,
        date_to := Some (TimeString ''2024-05-01T00:00:00Z'')\<rparr>)) ''dateTo''
     = Some ''2024-05-01T00:00:00Z''"
proof -
  have s: "select example_env (select_defaults\<lparr>q_before := Some (TimeString ''2024-05-01T00:00:00Z''),
        date_to := None\<rparr>)
     = iterate ''/event/events?dateTo=2024-05-01T00:00:00Z&pageSize=1000'' None None"
    by (simp add: select_def select_defaults_def query_defs)
  note t = alias_equivalence [where a = select_defaults and b = select_defaults
      and ev = example_env and x = "TimeString ''2024-05-01T00:00:00Z''"]
  from t have e: "select example_env (select_defaults\<lparr>q_before := Some (TimeString ''2024-05-01T00:00:00Z''),
        date_to := None\<rparr>)
      = select example_env (select_defaults\<lparr>q_before := None,
        date_to := Some (TimeString ''2024-05-01T00:00:00Z'')\<rparr>)"
    by (elim conjE)
  from t have k: "map_of (build_query_params example_env (select_defaults\<lparr>q_before := None,
        date_to := Some (TimeString ''2024-05-01T00:00:00Z'')\<rparr>)) ''dateTo''
     = Some (quote example_env (ensure_timestring example_env (TimeString ''2024-05-01T00:00:00Z'')))"
    by (elim conjE)
  from s e k show ?thesis by (simp add: example_env_def)
qed

text \<open>
  Claim C6. With \<open>limit=5\<close> and \<open>page_size=2\<close>, on an upstream sequence of at least five
  results, all of them well-formed events, a consumer that asks for \<open>k\<close> objects gets the
  first \<open>min k 5\<close> of them, parsed; the requests sent are the GETs of the first
  \<open>(k + 1) div 2\<close> pages and never more than three. So five objects are handed out, and neither reaching the limit nor
  abandoning the iterator costs a further fetch.
\<close>

theorem select_limit_page_fetches:
  assumes sel: "select ev (a\<lparr>page_size := Some 2, limit := Some 5, page_number := None\<rparr>) = it"
    and len: "5 \<le> length xs"
    and ok: "\<forall>x \<in> set xs. \<exists>ob. from_json x = Inr ob"
    and run: "pull (page_of xs 2) k it = (obs, it', reqs)"
  shows "map Inr obs = map from_json (take (min k 5) xs)
       \<and> reqs = take ((k + 1) div 2)
           [Get (base_query it @ ''&currentPage=1''), Get (base_query it @ ''&currentPage=2''),
            Get (base_query it @ ''&currentPage=3'')]
       \<and> length reqs \<le> 3
       \<and> (5 \<le> k \<longrightarrow> length obs = 5)"
proof -
  from sel obtain bq where it: "it = iterate bq None (Some 5)"
    by (auto simp: select_def)
  have bq: "base_query it = bq" by (simp add: it iterate_def)
  from len obtain x1 x2 x3 x4 x5 rest where xs: "xs = x1 # x2 # x3 # x4 # x5 # rest"
    by (metis Suc_le_length_iff eval_nat_numeral(3) numeral_eq_Suc pred_numeral_simps(2) semiring_norm(26) semiring_norm(27))
  from ok xs obtain e1 e2 e3 e4 e5 where
    p: "from_json x1 = Inr e1" "from_json x2 = Inr e2" "from_json x3 = Inr e3"
       "from_json x4 = Inr e4" "from_json x5 = Inr e5"
    by auto
  from pull_five [OF p, of rest k bq] run
  have obs: "obs = take k [e1, e2, e3, e4, e5]"
    and reqs: "reqs = take ((k + 1) div 2)
        [Get (bq @ ''&currentPage=1''), Get (bq @ ''&currentPage=2''), Get (bq @ ''&currentPage=3'')]"
    by (simp_all add: xs it show_int_digits)
  have "map from_json (take (min k 5) xs) = take k (map from_json [x1, x2, x3, x4, x5])"
    by (simp add: xs take_map[symmetric] min_def eval_nat_numeral take_Cons' )
  moreover have "map Inr (take k [e1, e2, e3, e4, e5]) = take k (map Inr [e1, e2, e3, e4, e5])"
    by (rule take_map [symmetric])
  ultimately have "map Inr obs = map from_json (take (min k 5) xs)"
    by (simp add: obs p)
  moreover have "length reqs \<le> 3" by (simp add: reqs)
  moreover have "5 \<le> k \<longrightarrow> length obs = 5" by (simp add: obs)
  ultimately show ?thesis by (simp add: reqs bq)
qed

theorem select_limit_page_fetches_witness:
  "select example_env (select_defaults\<lparr>page_size := Some 2, limit := Some 5, page_number := None\<rparr>)
     = iterate ''/event/events?pageSize=2'' None (Some 5)
   \<and> (\<exists>it'. pull (page_of (map example_doc [''1'', ''2'', ''3'', ''4'', ''5'', ''6'', ''7'']) 2) 9
          (iterate ''/event/events?pageSize=2'' None (Some 5))
       = (map example_event [''1'', ''2'', ''3'', ''4'', ''5''], it',
          [Get ''/event/events?pageSize=2&currentPage=1'',
           Get ''/event/events?pageSize=2&currentPage=2'',
           Get ''/event/events?pageSize=2&currentPage=3'']))"
proof -
  let ?it = "iterate ''/event/events?pageSize=2'' None (Some 5)"
  let ?xs = "map example_doc [''1'', ''2'', ''3'', ''4'', ''5'', ''6'', ''7'']"
  have sel: "select example_env (select_defaults\<lparr>page_size := Some 2, limit := Some 5,
                page_number := None\<rparr>) = ?it"
    by (simp add: select_def select_defaults_def query_defs)
  have len: "5 \<le> length ?xs" by simp
  have doc: "from_json (example_doc i) = Inr (example_event i)" for i
    by (simp add: example_doc_def example_event_def Event_def from_json_def parser_from_json_def
          json_to_obj_def parser_mapping_def known_keys_def parser_no_fragments_def set_field_def)
  have ok: "\<forall>x \<in> set ?xs. \<exists>ob. from_json x = Inr ob"
    by (auto simp: doc)
  obtain obs it' reqs where run: "pull (page_of ?xs 2) 9 ?it = (obs, it', reqs)"
    by (cases "pull (page_of ?xs 2) 9 ?it") auto
  from select_limit_page_fetches [OF sel len ok run]
  have "map Inr obs = map Inr (map example_event [''1'', ''2'', ''3'', ''4'', ''5''])
      \<and> reqs = [Get ''/event/events?pageSize=2&currentPage=1'',
           Get ''/event/events?pageSize=2&currentPage=2'',
           Get ''/event/events?pageSize=2&currentPage=3'']"
    by (auto simp: doc iterate_def)
  then have "obs = map example_event [''1'', ''2'', ''3'', ''4'', ''5'']
      \<and> reqs = [Get ''/event/events?pageSize=2&currentPage=1'',
           Get ''/event/events?pageSize=2&currentPage=2'',
           Get ''/event/events?pageSize=2&currentPage=3'']"
    by (simp only: inj_map_eq_map [OF inj_Inr])
  then show ?thesis
    using sel run by simp
qed

end
